theory Spec2Isabelle
  imports Main "HOL-Library.Word"
begin

unbundle bit_operations_syntax

section \<open>The executing thread: held mutexes and an operation log\<close>

text \<open>
  The fixtures are C functions whose interesting behaviour is the order of their
  library calls. Each function is embedded as a state transformer over a record that
  extends \<open>thread\<close>: the mutexes the executing thread holds, the log of the recognised
  operations it has performed, and the name of the function whose body is running.
  A log entry keeps the function that made the call, the set of mutexes held just
  before it, and the operation.
\<close>

type_synonym cint = "32 word"
type_synonym size_t = "64 word"
type_synonym ptr = "64 word"

definition NULL :: ptr where
  "NULL = 0"

datatype 'l event = Acquire 'l | Release 'l | Blocking string

type_synonym 'l entry = "string \<times> 'l set \<times> 'l event"

record 'l thread =
  held :: "'l set"
  oplog :: "'l entry list"
  cur :: string

text \<open>
  \<open>pthread_mutex_lock\<close> and \<open>pthread_mutex_unlock\<close>, seen from the one thread that
  runs the function. Locking a mutex the thread already holds and unlocking one it does
  not hold are undefined for a default mutex; the model does not stop there, it records
  the operation together with the held set before it, so that such a call is visible
  in the log (the mutex is, or is not, in the set of its entry).
\<close>

definition pthread_mutex_lock ::
    "'l \<Rightarrow> ('l, 'z) thread_scheme \<Rightarrow> ('l, 'z) thread_scheme" where
  "pthread_mutex_lock l s =
     s\<lparr>held := insert l (held s), oplog := oplog s @ [(cur s, held s, Acquire l)]\<rparr>"

definition pthread_mutex_unlock ::
    "'l \<Rightarrow> ('l, 'z) thread_scheme \<Rightarrow> ('l, 'z) thread_scheme" where
  "pthread_mutex_unlock l s =
     s\<lparr>held := held s - {l}, oplog := oplog s @ [(cur s, held s, Release l)]\<rparr>"

text \<open>A blocking primitive (\<open>recv\<close>, \<open>accept\<close>): only the call is recorded.\<close>

definition blocking_call ::
    "string \<Rightarrow> ('l, 'z) thread_scheme \<Rightarrow> ('l, 'z) thread_scheme" where
  "blocking_call name s = s\<lparr>oplog := oplog s @ [(cur s, held s, Blocking name)]\<rparr>"

text \<open>
  A call frame: the body runs with \<open>cur\<close> set to the callee's name, and the caller's
  name is restored at every return of the body.
\<close>

definition frame ::
    "string \<Rightarrow> (('l, 'z) thread_scheme \<Rightarrow> 'r \<times> ('l, 'z) thread_scheme) \<Rightarrow>
     ('l, 'z) thread_scheme \<Rightarrow> 'r \<times> ('l, 'z) thread_scheme" where
  "frame f body s = (case body (s\<lparr>cur := f\<rparr>) of (r, s') \<Rightarrow> (r, s'\<lparr>cur := cur s\<rparr>))"

definition frame_void ::
    "string \<Rightarrow> (('l, 'z) thread_scheme \<Rightarrow> ('l, 'z) thread_scheme) \<Rightarrow>
     ('l, 'z) thread_scheme \<Rightarrow> ('l, 'z) thread_scheme" where
  "frame_void f body s = (body (s\<lparr>cur := f\<rparr>))\<lparr>cur := cur s\<rparr>"

text \<open>
  The lock-order facts one function contributes: the pairs \<open>(h, l)\<close> such that a
  \<open>pthread_mutex_lock\<close> call in the body of \<open>f\<close> acquired \<open>l\<close> while \<open>h\<close> was held.
\<close>

definition acquired_while_holding :: "string \<Rightarrow> 'l entry list \<Rightarrow> ('l \<times> 'l) set" where
  "acquired_while_holding f lg =
     (\<Union>(w, H, e) \<in> set lg.
        case e of Acquire l \<Rightarrow> (if w = f then (\<lambda>h. (h, l)) ` H else {}) | _ \<Rightarrow> {})"

section \<open>sample\_lock.c\<close>

datatype mutex = g_lock_a | g_lock_b

text \<open>
  The globals of the file, and the \<open>int\<close> objects that \<open>risky_operation\<close> may store
  to through its pointer argument (\<open>ints\<close>, by address). A C \<open>int\<close> is a 32-bit word;
  \<open>++\<close> wraps in the model (its overflow is undefined in C, and nothing below depends
  on it).
\<close>

record lock_world = "mutex thread" +
  g_shared_data :: cint
  g_counter :: cint
  ints :: "ptr \<Rightarrow> cint"

definition safe_increment :: "lock_world \<Rightarrow> lock_world" where
  "safe_increment =
     frame_void ''safe_increment'' (\<lambda>s.
       let s = pthread_mutex_lock g_lock_a s;
           s = s\<lparr>g_shared_data := g_shared_data s + 1\<rparr>
       in pthread_mutex_unlock g_lock_a s)"

definition risky_operation :: "ptr \<Rightarrow> lock_world \<Rightarrow> cint \<times> lock_world" where
  "risky_operation result =
     frame ''risky_operation'' (\<lambda>s.
       let s = pthread_mutex_lock g_lock_a s in
       if result = NULL then (- 1, s)
       else
         let s = s\<lparr>ints := (ints s)(result := g_shared_data s)\<rparr>;
             s = s\<lparr>g_counter := g_counter s + 1\<rparr>;
             s = pthread_mutex_unlock g_lock_a s
         in (0, s))"

definition path_a_handler :: "lock_world \<Rightarrow> lock_world" where
  "path_a_handler =
     frame_void ''path_a_handler'' (\<lambda>s.
       let s = pthread_mutex_lock g_lock_a s;
           s = s\<lparr>g_shared_data := 1\<rparr>;
           s = pthread_mutex_lock g_lock_b s;
           s = s\<lparr>g_counter := g_counter s + 1\<rparr>;
           s = pthread_mutex_unlock g_lock_b s
       in pthread_mutex_unlock g_lock_a s)"

definition path_b_handler :: "lock_world \<Rightarrow> lock_world" where
  "path_b_handler =
     frame_void ''path_b_handler'' (\<lambda>s.
       let s = pthread_mutex_lock g_lock_b s;
           s = s\<lparr>g_counter := 1\<rparr>;
           s = pthread_mutex_lock g_lock_a s;
           s = s\<lparr>g_shared_data := g_shared_data s + 1\<rparr>;
           s = pthread_mutex_unlock g_lock_a s
       in pthread_mutex_unlock g_lock_b s)"

text \<open>
  \<open>conditional_lock\<close> is the \<open>if\<close>/\<open>else\<close> followed by the unconditional unlock. The
  two branches are a definition of their own: its result is the state at the join.
\<close>

definition conditional_lock_branches :: "cint \<Rightarrow> lock_world \<Rightarrow> lock_world" where
  "conditional_lock_branches condition s =
     (if 0 < sint condition then
        let s = pthread_mutex_lock g_lock_a s
        in s\<lparr>g_shared_data := g_shared_data s + 1\<rparr>
      else s\<lparr>g_counter := g_counter s + 1\<rparr>)"

definition conditional_lock :: "cint \<Rightarrow> lock_world \<Rightarrow> lock_world" where
  "conditional_lock condition =
     frame_void ''conditional_lock'' (\<lambda>s.
       let s = conditional_lock_branches condition s
       in pthread_mutex_unlock g_lock_a s)"

definition on_message_callback :: "cint \<Rightarrow> ptr \<Rightarrow> lock_world \<Rightarrow> lock_world" where
  "on_message_callback type data =
     frame_void ''on_message_callback'' (\<lambda>s.
       if type = 1 then safe_increment s
       else if type = 2 then path_a_handler s
       else s)"

definition thread_entry :: "ptr \<Rightarrow> lock_world \<Rightarrow> ptr \<times> lock_world" where
  "thread_entry arg =
     frame ''thread_entry'' (\<lambda>s.
       let s = on_message_callback 1 arg s in (NULL, s))"

text \<open>
  A function is analysed from its entry: no mutex held, nothing logged yet; the
  globals and the memory are arbitrary.
\<close>

definition at_entry :: "cint \<Rightarrow> cint \<Rightarrow> (ptr \<Rightarrow> cint) \<Rightarrow> lock_world" where
  "at_entry d c m =
     \<lparr>held = {}, oplog = [], cur = ''caller'', g_shared_data = d, g_counter = c, ints = m\<rparr>"

text \<open>
  The functions of the file and their arguments, so that "every function of
  sample\_lock.c" is a quantifier: \<open>fn_name\<close> is the C name and \<open>invoke\<close> runs the
  function (its return value, if any, dropped).
\<close>

datatype lock_fn =
    Safe_increment
  | Risky_operation ptr
  | Path_a_handler
  | Path_b_handler
  | Conditional_lock cint
  | On_message_callback cint ptr
  | Thread_entry ptr

fun fn_name :: "lock_fn \<Rightarrow> string" where
  "fn_name Safe_increment = ''safe_increment''"
| "fn_name (Risky_operation result) = ''risky_operation''"
| "fn_name Path_a_handler = ''path_a_handler''"
| "fn_name Path_b_handler = ''path_b_handler''"
| "fn_name (Conditional_lock condition) = ''conditional_lock''"
| "fn_name (On_message_callback type data) = ''on_message_callback''"
| "fn_name (Thread_entry arg) = ''thread_entry''"

fun invoke :: "lock_fn \<Rightarrow> lock_world \<Rightarrow> lock_world" where
  "invoke Safe_increment s = safe_increment s"
| "invoke (Risky_operation result) s = snd (risky_operation result s)"
| "invoke Path_a_handler s = path_a_handler s"
| "invoke Path_b_handler s = path_b_handler s"
| "invoke (Conditional_lock condition) s = conditional_lock condition s"
| "invoke (On_message_callback type data) s = on_message_callback type data s"
| "invoke (Thread_entry arg) s = snd (thread_entry arg s)"

text \<open>
  The acquire-while-holding order of the function named \<open>f\<close>: what its own
  \<open>pthread_mutex_lock\<close> calls contribute, over all its arguments and entry states.
  Two functions form an ABBA pair when one orders two distinct mutexes one way and the
  other the opposite way: a cycle of length 2.
\<close>

definition lock_order_of :: "string \<Rightarrow> (mutex \<times> mutex) set" where
  "lock_order_of f =
     (\<Union>c \<in> {c. fn_name c = f}. \<Union>d. \<Union>k. \<Union>m.
        acquired_while_holding f (oplog (invoke c (at_entry d k m))))"

definition abba_pair :: "string \<Rightarrow> string \<Rightarrow> bool" where
  "abba_pair f g \<longleftrightarrow>
     (\<exists>l1 l2. l1 \<noteq> l2 \<and> (l1, l2) \<in> lock_order_of f \<and> (l2, l1) \<in> lock_order_of g)"

section \<open>sample\_protocol.c\<close>

text \<open>
  The file has one mutex and one global. What \<open>recv\<close> and \<open>accept\<close> return is the
  network's choice: \<open>net\<close> gives the value for the arguments of the call. Both
  primitives block, and the model logs the call; the bytes \<open>recv\<close> stores through
  \<open>buffer\<close>, and the address \<open>accept\<close> stores in the local \<open>client_addr\<close>, are never
  read by these functions and are not tracked.
\<close>

datatype conn_mutex = conn_lock

record proto_world = "conn_mutex thread" +
  g_connection_state :: cint

record net =
  recv_ret :: "cint \<Rightarrow> ptr \<Rightarrow> cint \<Rightarrow> cint \<Rightarrow> cint"
  accept_ret :: "cint \<Rightarrow> cint"

definition recv ::
    "net \<Rightarrow> cint \<Rightarrow> ptr \<Rightarrow> cint \<Rightarrow> cint \<Rightarrow> proto_world \<Rightarrow> cint \<times> proto_world" where
  "recv env fd buffer maxlen flags s =
     (recv_ret env fd buffer maxlen flags, blocking_call ''recv'' s)"

definition accept :: "net \<Rightarrow> cint \<Rightarrow> proto_world \<Rightarrow> cint \<times> proto_world" where
  "accept env server_fd s = (accept_ret env server_fd, blocking_call ''accept'' s)"

definition recv_data_handler ::
    "net \<Rightarrow> cint \<Rightarrow> ptr \<Rightarrow> cint \<Rightarrow> proto_world \<Rightarrow> cint \<times> proto_world" where
  "recv_data_handler env fd buffer maxlen =
     frame ''recv_data_handler'' (\<lambda>s.
       let s = pthread_mutex_lock conn_lock s;
           (received, s) = recv env fd buffer maxlen 0 s;
           s = pthread_mutex_unlock conn_lock s
       in (received, s))"

definition accept_connection_callback ::
    "net \<Rightarrow> cint \<Rightarrow> proto_world \<Rightarrow> cint \<times> proto_world" where
  "accept_connection_callback env server_fd =
     frame ''accept_connection_callback'' (\<lambda>s.
       let s = pthread_mutex_lock conn_lock s;
           (client_fd, s) = accept env server_fd s;
           s = pthread_mutex_unlock conn_lock s
       in if sint client_fd < 0 then (- 1, s)
          else
            let s = s\<lparr>g_connection_state := 2\<rparr>
            in (client_fd, s))"

definition proto_entry :: "cint \<Rightarrow> proto_world" where
  "proto_entry st = \<lparr>held = {}, oplog = [], cur = ''caller'', g_connection_state = st\<rparr>"

text \<open>Every blocking call of a log was made while \<open>l\<close> was held.\<close>

definition blocking_under :: "'l \<Rightarrow> 'l entry list \<Rightarrow> bool" where
  "blocking_under l lg \<longleftrightarrow> (\<forall>(w, H, e) \<in> set lg. (case e of Blocking n \<Rightarrow> l \<in> H | _ \<Rightarrow> True))"

section \<open>sample\_branch.c\<close>

text \<open>
  The two globals of the file, and the bytes of memory that \<open>process_input\<close> reads
  through its \<open>buffer\<close> argument (\<open>bytes\<close>, by address).
\<close>

record branch_world =
  global_counter :: cint
  g_status :: cint
  bytes :: "ptr \<Rightarrow> 8 word"

text \<open>
  Signed 32-bit increment and decrement do not wrap below the bound they are
  compared with.
\<close>

lemma sint_succ:
  fixes i :: cint
  assumes "sint i < k" and "k \<le> 2147483647"
  shows "sint (i + 1) = sint i + 1"
proof -
  have lo: "- 2147483648 \<le> sint i"
    using sint_ge [of i] by simp
  have "signed_take_bit 31 (sint i + 1) = sint i + 1"
    by (rule signed_take_bit_int_eq_self) (use lo assms in simp_all)
  then show ?thesis
    by (simp add: sint_word_ariths)
qed

lemma sint_pred:
  fixes i :: cint
  assumes "0 < sint i"
  shows "sint (i - 1) = sint i - 1"
proof -
  have hi: "sint i < 2147483648"
    using sint_lt [of i] by simp
  have "signed_take_bit 31 (sint i - 1) = sint i - 1"
    by (rule signed_take_bit_int_eq_self) (use hi assms in simp_all)
  then show ?thesis
    by (simp add: sint_word_ariths)
qed

text \<open>
  The \<open>for\<close> loop of \<open>process_input\<close>: it only reads, and \<open>break\<close>s at the first zero
  byte; the value is the final \<open>i\<close>.
\<close>

function process_input_for :: "(ptr \<Rightarrow> 8 word) \<Rightarrow> ptr \<Rightarrow> cint \<Rightarrow> cint \<Rightarrow> cint" where
  "process_input_for mem buffer size' i =
     (if sint i < sint size' then
        (if mem (buffer + scast i) = 0 then i
         else process_input_for mem buffer size' (i + 1))
      else i)"
  by pat_completeness auto
termination
proof (relation "measure (\<lambda>(mem, buffer, size', i). nat (sint size' - sint i))")
  show "wf (measure (\<lambda>(mem, buffer, size', i). nat (sint size' - sint i)))"
    by simp
next
  fix mem :: "ptr \<Rightarrow> 8 word" and buffer :: ptr and size' i :: cint
  assume lt: "sint i < sint size'"
  have "sint size' \<le> 2147483647"
    using sint_lt [of size'] by simp
  then have "sint (i + 1) = sint i + 1"
    using lt by (rule sint_succ [rotated])
  then show "((mem, buffer, size', i + 1), (mem, buffer, size', i))
      \<in> measure (\<lambda>(mem, buffer, size', i). nat (sint size' - sint i))"
    using lt by simp
qed

declare process_input_for.simps [simp del]

definition process_input :: "ptr \<Rightarrow> cint \<Rightarrow> branch_world \<Rightarrow> cint \<times> branch_world" where
  "process_input buffer size' s =
     (if buffer = NULL then (- 1, s)
      else if sint size' \<le> 0 then (- 2, s)
      else if 1024 < sint size' then (- 3, s)
      else
        let s = s\<lparr>global_counter := global_counter s + 1\<rparr>;
            i = process_input_for (bytes s) buffer size' 0
        in (0, s))"

text \<open>
  The \<open>while\<close> loop of \<open>handle_command\<close>. Whether it ends is what is to be shown, so it
  is a partial function: \<open>None\<close> is a loop that never exits.
\<close>

definition handle_command_body :: "branch_world \<Rightarrow> branch_world" where
  "handle_command_body s = s\<lparr>g_status := g_status s - 1\<rparr>"

partial_function (option) handle_command_while :: "branch_world \<Rightarrow> branch_world option" where
  "handle_command_while s =
     (if 0 < sint (g_status s) then handle_command_while (handle_command_body s)
      else Some s)"

text \<open>
  \<open>handle_command\<close>: the cases 1 and \<open>default\<close> return inside the \<open>switch\<close>; the cases
  2 and 3 \<open>break\<close> to the code after it, the loop and \<open>return 0\<close>.
\<close>

definition handle_command_after_switch ::
    "branch_world \<Rightarrow> (cint \<times> branch_world) option" where
  "handle_command_after_switch s =
     (case handle_command_while s of
        None \<Rightarrow> None
      | Some s \<Rightarrow> Some (0, s))"

definition handle_command :: "cint \<Rightarrow> branch_world \<Rightarrow> (cint \<times> branch_world) option" where
  "handle_command cmd s =
     (if cmd = 1 then
        let s = s\<lparr>g_status := 1\<rparr> in Some (process_input NULL 0 s)
      else if cmd = 2 then
        let s = s\<lparr>g_status := 2\<rparr> in handle_command_after_switch s
      else if cmd = 3 then
        let s = s\<lparr>g_status := 3\<rparr> in handle_command_after_switch s
      else
        let s = s\<lparr>g_status := - 1\<rparr> in Some (- 1, s))"

section \<open>sample\_funcptr.c\<close>

text \<open>
  A function pointer holds the address of one of the file's functions, or is null.
  In C the designator \<open>my_callback\<close> and the expression \<open>&my_callback\<close> are the same
  pointer value, \<open>Fn_my_callback\<close> here. The typedefs \<open>callback_t\<close> and \<open>handler_func\<close>
  only fix the signature: a call through a \<open>callback_t\<close> passes one \<open>int\<close>, a call
  through a \<open>handler_func\<close> passes a pointer and a \<open>size_t\<close>.
\<close>

datatype funptr = Null_fn | Fn_my_callback | Fn_process_data | Fn_cleanup_handler

text \<open>
  What a run leaves in the log: each call made through a pointer (with the pointer's
  value), each entry into one of the three target functions (with its arguments), and
  the library calls the targets make.
\<close>

datatype fp_event =
    Call_through funptr
  | Enter_my_callback cint
  | Enter_process_data ptr size_t
  | Enter_cleanup_handler ptr size_t
  | Printf string cint
  | Free ptr

record handler_ops =
  process :: funptr
  cleanup :: funptr

text \<open>The global table has 10 slots, \<open>callback_table 0\<close> to \<open>callback_table 9\<close>.\<close>

record fp_world =
  callback_table :: "nat \<Rightarrow> funptr"
  calls :: "fp_event list"

definition emit :: "fp_event \<Rightarrow> fp_world \<Rightarrow> fp_world" where
  "emit e s = s\<lparr>calls := calls s @ [e]\<rparr>"

definition my_callback :: "cint \<Rightarrow> fp_world \<Rightarrow> fp_world" where
  "my_callback val s =
     (let s = emit (Enter_my_callback val) s
      in emit (Printf (''Callback called with %d'' @ [CHR 0x0A]) val) s)"

definition process_data :: "ptr \<Rightarrow> size_t \<Rightarrow> fp_world \<Rightarrow> cint \<times> fp_world" where
  "process_data data len s =
     (let s = emit (Enter_process_data data len) s
      in if data = NULL \<or> len = 0 then (- 1, s) else (0, s))"

definition cleanup_handler :: "ptr \<Rightarrow> size_t \<Rightarrow> fp_world \<Rightarrow> cint \<times> fp_world" where
  "cleanup_handler data len s =
     (let s = emit (Enter_cleanup_handler data len) s;
          s = (if data \<noteq> NULL then emit (Free data) s else s)
      in (0, s))"

text \<open>
  A call through a pointer runs the function the pointer holds. Through a null
  pointer, or a pointer to a function of the other signature, the call is undefined:
  \<open>None\<close>.
\<close>

definition call_callback_t :: "funptr \<Rightarrow> cint \<Rightarrow> fp_world \<Rightarrow> fp_world option" where
  "call_callback_t p val s =
     (let s = emit (Call_through p) s
      in case p of Fn_my_callback \<Rightarrow> Some (my_callback val s) | _ \<Rightarrow> None)"

definition call_handler_func ::
    "funptr \<Rightarrow> ptr \<Rightarrow> size_t \<Rightarrow> fp_world \<Rightarrow> (cint \<times> fp_world) option" where
  "call_handler_func p data len s =
     (let s = emit (Call_through p) s
      in case p of
           Fn_process_data \<Rightarrow> Some (process_data data len s)
         | Fn_cleanup_handler \<Rightarrow> Some (cleanup_handler data len s)
         | _ \<Rightarrow> None)"

definition test_direct_assignment :: "fp_world \<Rightarrow> fp_world option" where
  "test_direct_assignment s =
     (let cb = Fn_my_callback
      in call_callback_t cb 42 s)"

definition test_addressof_assignment :: "fp_world \<Rightarrow> fp_world option" where
  "test_addressof_assignment s =
     (let cb = Fn_my_callback
      in call_callback_t cb 100 s)"

text \<open>
  The local \<open>ops\<close> of \<open>test_struct_member\<close> is not initialised: its first contents are
  the argument \<open>ops\<close>, any value.
\<close>

definition test_struct_member :: "handler_ops \<Rightarrow> fp_world \<Rightarrow> fp_world option" where
  "test_struct_member ops s =
     (let ops = ops\<lparr>process := Fn_process_data\<rparr>;
          ops = ops\<lparr>cleanup := Fn_cleanup_handler\<rparr>
      in case call_handler_func (process ops) NULL 0 s of
           None \<Rightarrow> None
         | Some (r, s) \<Rightarrow>
             (case call_handler_func (cleanup ops) NULL 0 s of
                None \<Rightarrow> None
              | Some (r, s) \<Rightarrow> Some s))"

text \<open>Reading slot \<open>i\<close> of the table; outside the 10 slots the read is undefined.\<close>

definition callback_table_at :: "fp_world \<Rightarrow> cint \<Rightarrow> funptr option" where
  "callback_table_at s i =
     (if 0 \<le> sint i \<and> sint i < 10 then Some (callback_table s (nat (sint i))) else None)"

function test_array_funcptr_for :: "cint \<Rightarrow> fp_world \<Rightarrow> fp_world option" where
  "test_array_funcptr_for i s =
     (if sint i < 2 then
        (case callback_table_at s i of
           None \<Rightarrow> None
         | Some p \<Rightarrow>
             (case call_callback_t p i s of
                None \<Rightarrow> None
              | Some s \<Rightarrow> test_array_funcptr_for (i + 1) s))
      else Some s)"
  by pat_completeness auto
termination
proof (relation "measure (\<lambda>(i, s). nat (2 - sint i))")
  show "wf (measure (\<lambda>(i, s). nat (2 - sint i)))"
    by simp
next
  fix i :: cint and s s' :: fp_world and p :: funptr
  assume lt: "sint i < 2"
  then have "sint (i + 1) = sint i + 1"
    by (rule sint_succ) simp
  then show "((i + 1, s'), (i, s)) \<in> measure (\<lambda>(i, s). nat (2 - sint i))"
    using lt by simp
qed

declare test_array_funcptr_for.simps [simp del]

definition test_array_funcptr :: "fp_world \<Rightarrow> fp_world option" where
  "test_array_funcptr s =
     (let s = s\<lparr>callback_table := (callback_table s)(0 := Fn_my_callback)\<rparr>;
          s = s\<lparr>callback_table := (callback_table s)(1 := Fn_my_callback)\<rparr>
      in test_array_funcptr_for 0 s)"

section \<open>sample\_overflow.c: allocation sizes\<close>

text \<open>
  \<open>size_t\<close> is a 64-bit unsigned word and \<open>SIZE_MAX\<close> its largest value. Unsigned
  multiplication wraps. Unsigned division by zero is undefined in C: the division of
  the model returns a fault there, where HOL's \<open>div\<close> would return 0.
\<close>

definition SIZE_MAX :: size_t where
  "SIZE_MAX = - 1"

datatype fault = Division_by_zero

definition c_div :: "size_t \<Rightarrow> size_t \<Rightarrow> fault + size_t" where
  "c_div a b = (if b = 0 then Inl Division_by_zero else Inr (a div b))"

text \<open>
  \<open>malloc\<close> is the allocator's: the argument \<open>malloc\<close> gives the pointer it returns for
  a requested size (\<open>NULL\<close> when it fails). A run of either function yields the pointer
  returned and the sizes passed to \<open>malloc\<close>.
\<close>

definition allocate_buffer ::
    "(size_t \<Rightarrow> ptr) \<Rightarrow> size_t \<Rightarrow> size_t \<Rightarrow> fault + ptr \<times> size_t list" where
  "allocate_buffer malloc count size' =
     (let buf = malloc (count * size')
      in Inr (buf, [count * size']))"

definition allocate_buffer_safe ::
    "(size_t \<Rightarrow> ptr) \<Rightarrow> size_t \<Rightarrow> size_t \<Rightarrow> fault + ptr \<times> size_t list" where
  "allocate_buffer_safe malloc count size' =
     (case c_div SIZE_MAX size' of
        Inl f \<Rightarrow> Inl f
      | Inr q \<Rightarrow>
          if q < count then Inr (NULL, [])
          else
            let buf = malloc (count * size')
            in Inr (buf, [count * size']))"

section \<open>sample\_overflow.c: string copies\<close>

text \<open>
  A \<open>char\<close> array of fixed size: one cell per element, \<open>None\<close> while the element has not
  been written (a local array starts indeterminate). A store at an index inside the
  array updates the cell. A store at an index outside it is the overflow: C leaves it
  undefined, the model keeps the array as it is and records the index and the byte in
  \<open>beyond\<close>, in order.
\<close>

record cbuf =
  cells :: "char option list"
  beyond :: "(nat \<times> char) list"

definition NUL :: char where
  "NUL = CHR 0x00"


definition store :: "nat \<Rightarrow> char \<Rightarrow> cbuf \<Rightarrow> cbuf" where
  "store i v b =
     (if i < length (cells b) then b\<lparr>cells := (cells b)[i := Some v]\<rparr>
      else b\<lparr>beyond := beyond b @ [(i, v)]\<rparr>)"



text \<open>
  \<open>strcpy\<close> copies the string and its terminator, however long. \<open>strncpy\<close> writes exactly
  \<open>n\<close> bytes: the string's bytes, cut at \<open>n\<close>, then \<open>NUL\<close>s up to \<open>n\<close>. Both start at
  index \<open>i\<close> of the destination.
\<close>

fun strcpy_at :: "nat \<Rightarrow> string \<Rightarrow> cbuf \<Rightarrow> cbuf" where
  "strcpy_at i [] b = store i NUL b"
| "strcpy_at i (c # cs) b =
     (if c = NUL then store i NUL b else strcpy_at (Suc i) cs (store i c b))"










section \<open>sample\_overflow.c: checks and opens\<close>

text \<open>
  The file-system calls the two functions make. \<open>access\<close> and \<open>open\<close> name a file by
  its path, \<open>fstat\<close> and \<open>close\<close> by a descriptor. What a call returns is the
  environment's choice, and it may depend on everything that happened before (the
  file behind a path can change between two calls): the environment maps the history
  of calls, each with its return value, and the new call to the return value and, for
  \<open>fstat\<close>, the \<open>st_mode\<close> it stores in the \<open>struct stat\<close>.
\<close>

datatype fs_call =
    Access string cint
  | Open string cint
  | Fstat cint
  | Close cint

type_synonym fs_history = "(fs_call \<times> cint) list"

type_synonym fs = "fs_history \<Rightarrow> fs_call \<Rightarrow> cint \<times> 32 word"

definition syscall :: "fs \<Rightarrow> fs_call \<Rightarrow> fs_history \<Rightarrow> (cint \<times> 32 word) \<times> fs_history" where
  "syscall env c h = (env h c, h @ [(c, fst (env h c))])"

definition access :: "fs \<Rightarrow> string \<Rightarrow> cint \<Rightarrow> fs_history \<Rightarrow> cint \<times> fs_history" where
  "access env path amode h = (case syscall env (Access path amode) h of ((r, m), h) \<Rightarrow> (r, h))"

definition c_open :: "fs \<Rightarrow> string \<Rightarrow> cint \<Rightarrow> fs_history \<Rightarrow> cint \<times> fs_history" where
  "c_open env path oflag h = (case syscall env (Open path oflag) h of ((r, m), h) \<Rightarrow> (r, h))"

definition fstat :: "fs \<Rightarrow> cint \<Rightarrow> fs_history \<Rightarrow> (cint \<times> 32 word) \<times> fs_history" where
  "fstat env fd h = syscall env (Fstat fd) h"

definition close :: "fs \<Rightarrow> cint \<Rightarrow> fs_history \<Rightarrow> cint \<times> fs_history" where
  "close env fd h = (case syscall env (Close fd) h of ((r, m), h) \<Rightarrow> (r, h))"

text \<open>The constants of the system headers, with their Linux values.\<close>

definition R_OK :: cint where
  "R_OK = 4"

definition O_RDONLY :: cint where
  "O_RDONLY = 0"

definition O_NOFOLLOW :: cint where
  "O_NOFOLLOW = 0x20000"

definition S_ISREG :: "32 word \<Rightarrow> bool" where
  "S_ISREG m \<longleftrightarrow> m AND 0xF000 = 0x8000"

definition open_if_readable :: "fs \<Rightarrow> string \<Rightarrow> fs_history \<Rightarrow> cint \<times> fs_history" where
  "open_if_readable env path h =
     (case access env path R_OK h of
        (r, h) \<Rightarrow>
          if r = 0 then c_open env path O_RDONLY h
          else (- 1, h))"

definition open_and_verify :: "fs \<Rightarrow> string \<Rightarrow> fs_history \<Rightarrow> cint \<times> fs_history" where
  "open_and_verify env path h =
     (case c_open env path (O_RDONLY OR O_NOFOLLOW) h of
        (fd, h) \<Rightarrow>
          if sint fd < 0 then (- 1, h)
          else
            (case fstat env fd h of
               ((r, st_mode), h) \<Rightarrow>
                 if sint r < 0 then
                   (case close env fd h of (c, h) \<Rightarrow> (- 1, h))
                 else if \<not> S_ISREG st_mode then
                   (case close env fd h of (c, h) \<Rightarrow> (- 1, h))
                 else (fd, h)))"

text \<open>Every call of a history names its file by the descriptor \<open>fd\<close>.\<close>

definition by_descriptor :: "cint \<Rightarrow> fs_history \<Rightarrow> bool" where
  "by_descriptor fd h \<longleftrightarrow> (\<forall>(c, r) \<in> set h. c = Fstat fd \<or> c = Close fd)"

section \<open>storage\_module.c\<close>

text \<open>
  Objects live in a store, by address: the pools and the block entries. A pointer
  that is not the address of an object of the right type cannot be dereferenced; doing
  so is a fault, like indexing outside an array. Each pool and each entry has a mutex
  of its own, named by the address of its object.
\<close>

datatype storage_mutex = Pool_lock ptr | Entry_lock ptr

datatype storage_fault = Bad_pointer | Out_of_bounds

record block_entry_t =
  key :: string
  data :: ptr
  size' :: size_t
  ref_count :: cint

text \<open>\<open>entries\<close> has \<open>POOL_SIZE\<close> slots, \<open>entries 0\<close> to \<open>entries 63\<close>.\<close>

record block_pool_t =
  entries :: "nat \<Rightarrow> ptr"
  count :: cint

record storage_world = "storage_mutex thread" +
  pools :: "ptr \<rightharpoonup> block_pool_t"
  blocks :: "ptr \<rightharpoonup> block_entry_t"

definition POOL_SIZE :: int where
  "POOL_SIZE = 64"

text \<open>The \<open>errno\<close> values of the system headers (Linux).\<close>

definition EINVAL :: cint where
  "EINVAL = 22"

definition ENOSPC :: cint where
  "ENOSPC = 28"

definition EEXIST :: cint where
  "EEXIST = 17"

text \<open>
  \<open>strcmp\<close> on two \<open>char\<close> arrays, byte by byte: it stops at the first difference or
  at a common \<open>NUL\<close>; an array that ends before either is read past its end.
\<close>

fun strcmp :: "string \<Rightarrow> string \<Rightarrow> storage_fault + cint" where
  "strcmp [] bs = Inl Out_of_bounds"
| "strcmp (a # as) [] = Inl Out_of_bounds"
| "strcmp (a # as) (b # bs) =
     (if a \<noteq> b then Inr (of_nat (of_char a) - of_nat (of_char b))
      else if a = NUL then Inr 0
      else strcmp as bs)"

text \<open>
  The duplicate-key loop of \<open>pool_insert\<close>. It changes nothing; its value tells
  whether it left through the \<open>return\<close> in its body (\<open>True\<close>: a key compared equal) or
  ran to its end.
\<close>

function pool_insert_for ::
    "storage_world \<Rightarrow> block_pool_t \<Rightarrow> ptr \<Rightarrow> cint \<Rightarrow> storage_fault + bool" where
  "pool_insert_for s p entry i =
     (if sint i < sint (count p) then
        (if \<not> (0 \<le> sint i \<and> sint i < POOL_SIZE) then Inl Out_of_bounds
         else
           case blocks s (entries p (nat (sint i))) of
             None \<Rightarrow> Inl Bad_pointer
           | Some e \<Rightarrow>
               (case blocks s entry of
                  None \<Rightarrow> Inl Bad_pointer
                | Some n \<Rightarrow>
                    (case strcmp (key e) (key n) of
                       Inl f \<Rightarrow> Inl f
                     | Inr r \<Rightarrow>
                         if r = 0 then Inr True
                         else pool_insert_for s p entry (i + 1))))
      else Inr False)"
  by pat_completeness auto
termination
proof (relation "measure (\<lambda>(s, p, entry, i). nat (sint (count p) - sint i))")
  show "wf (measure (\<lambda>(s, p, entry, i). nat (sint (count p) - sint i)))"
    by simp
next
  fix s :: storage_world and p :: block_pool_t and entry :: ptr and i :: cint
  assume lt: "sint i < sint (count p)"
  have "sint (count p) \<le> 2147483647"
    using sint_lt [of "count p"] by simp
  then have "sint (i + 1) = sint i + 1"
    using lt by (rule sint_succ [rotated])
  then show "((s, p, entry, i + 1), (s, p, entry, i))
      \<in> measure (\<lambda>(s, p, entry, i). nat (sint (count p) - sint i))"
    using lt by simp
qed

declare pool_insert_for.simps [simp del]

text \<open>A call frame around a body that may fault.\<close>

definition frame_result ::
    "string \<Rightarrow> (('l, 'z) thread_scheme \<Rightarrow> 'e + 'r \<times> ('l, 'z) thread_scheme) \<Rightarrow>
     ('l, 'z) thread_scheme \<Rightarrow> 'e + 'r \<times> ('l, 'z) thread_scheme" where
  "frame_result f body s =
     (case body (s\<lparr>cur := f\<rparr>) of
        Inl e \<Rightarrow> Inl e
      | Inr (r, s') \<Rightarrow> Inr (r, s'\<lparr>cur := cur s\<rparr>))"

definition pool_insert ::
    "ptr \<Rightarrow> ptr \<Rightarrow> storage_world \<Rightarrow> storage_fault + cint \<times> storage_world" where
  "pool_insert pool entry =
     frame_result ''pool_insert'' (\<lambda>s.
      if pool = NULL \<or> entry = NULL then Inr (- EINVAL, s)
      else
        let s = pthread_mutex_lock (Pool_lock pool) s in
        case pools s pool of
          None \<Rightarrow> Inl Bad_pointer
        | Some p \<Rightarrow>
            if POOL_SIZE \<le> sint (count p) then Inr (- ENOSPC, s)
            else
              (case pool_insert_for s p entry 0 of
                 Inl f \<Rightarrow> Inl f
               | Inr True \<Rightarrow>
                   let s = pthread_mutex_unlock (Pool_lock pool) s
                   in Inr (- EEXIST, s)
               | Inr False \<Rightarrow>
                   if sint (count p) < 0 then Inl Out_of_bounds
                   else
                     let p = p\<lparr>entries := (entries p)(nat (sint (count p)) := entry)\<rparr>;
                         p = p\<lparr>count := count p + 1\<rparr>;
                         s = s\<lparr>pools := (pools s)(pool \<mapsto> p)\<rparr>;
                         s = pthread_mutex_unlock (Pool_lock pool) s
                     in Inr (0, s)))"

definition storage_entry ::
    "(ptr \<rightharpoonup> block_pool_t) \<Rightarrow> (ptr \<rightharpoonup> block_entry_t) \<Rightarrow> storage_world" where
  "storage_entry ps bs =
     \<lparr>held = {}, oplog = [], cur = ''caller'', pools = ps, blocks = bs\<rparr>"

section \<open>Results for sample\_lock.c\<close>

lemmas thread_ops =
  pthread_mutex_lock_def pthread_mutex_unlock_def blocking_call_def frame_def frame_void_def

lemmas lock_fns =
  safe_increment_def risky_operation_def path_a_handler_def path_b_handler_def
  conditional_lock_def conditional_lock_branches_def on_message_callback_def
  thread_entry_def

lemma own_edges:
  "acquired_while_holding (fn_name c) (oplog (invoke c (at_entry d k m))) =
     (case c of Path_a_handler \<Rightarrow> {(g_lock_a, g_lock_b)}
              | Path_b_handler \<Rightarrow> {(g_lock_b, g_lock_a)}
              | _ \<Rightarrow> {})"
  by (cases c)
     (simp_all add: lock_fns at_entry_def thread_ops Let_def acquired_while_holding_def)

lemma lock_order_of_eq:
  "lock_order_of f =
     (if f = ''path_a_handler'' then {(g_lock_a, g_lock_b)}
      else if f = ''path_b_handler'' then {(g_lock_b, g_lock_a)} else {})"
proof -
  have "lock_order_of f =
      (\<Union>c \<in> {c. fn_name c = f}.
         case c of Path_a_handler \<Rightarrow> {(g_lock_a, g_lock_b)}
              | Path_b_handler \<Rightarrow> {(g_lock_b, g_lock_a)}
              | _ \<Rightarrow> {})"
    unfolding lock_order_of_def using own_edges by auto
  also have "\<dots> = (if f = ''path_a_handler'' then {(g_lock_a, g_lock_b)}
      else if f = ''path_b_handler'' then {(g_lock_b, g_lock_a)} else {})"
    by (auto split: lock_fn.splits)
  finally show ?thesis .
qed

lemma lock_order_path_a: "lock_order_of ''path_a_handler'' = {(g_lock_a, g_lock_b)}"
  by (simp add: lock_order_of_eq)

lemma lock_order_path_b: "lock_order_of ''path_b_handler'' = {(g_lock_b, g_lock_a)}"
  by (simp add: lock_order_of_eq)

lemma lock_order_other:
  "f \<noteq> ''path_a_handler'' \<Longrightarrow> f \<noteq> ''path_b_handler'' \<Longrightarrow> lock_order_of f = {}"
  by (simp only: lock_order_of_eq if_False)

lemma abba_a_b: "abba_pair ''path_a_handler'' ''path_b_handler''"
  unfolding abba_pair_def lock_order_path_a lock_order_path_b by blast

lemma abba_b_a: "abba_pair ''path_b_handler'' ''path_a_handler''"
  unfolding abba_pair_def lock_order_path_a lock_order_path_b by blast

lemma abba_only: "abba_pair f g \<Longrightarrow> f = ''path_a_handler'' \<or> f = ''path_b_handler''"
  unfolding abba_pair_def using lock_order_other [of f] by blast

lemma abba_partner:
  "abba_pair f g \<Longrightarrow> g = ''path_a_handler'' \<or> g = ''path_b_handler''"
  unfolding abba_pair_def using lock_order_other [of g] by blast

text \<open>
  \<open>on_message_callback\<close> reaches \<open>path_a_handler\<close> when \<open>type\<close> is 2, and then the
  thread performs that function's four operations; they are calls of
  \<open>path_a_handler\<close>'s body, and \<open>on_message_callback\<close> itself makes no mutex call.
\<close>

lemma on_message_callback_2_runs_path_a_handler:
  fixes data :: ptr
  shows "oplog (on_message_callback 2 data (at_entry d c m)) =
     oplog (path_a_handler (at_entry d c m))"
  by (simp add: lock_fns at_entry_def thread_ops Let_def)

text \<open>
  C1. \<open>path_a_handler\<close> has one execution path: it acquires \<open>g_lock_a\<close>, then
  \<open>g_lock_b\<close> while holding \<open>g_lock_a\<close>, and releases both before it returns.
  \<open>path_b_handler\<close> acquires \<open>g_lock_b\<close>, then \<open>g_lock_a\<close> while holding \<open>g_lock_b\<close>,
  and releases both. Among the functions of the file, the ones whose own
  acquire-while-holding order takes part in a cycle of length 2 are exactly these two,
  and they form the cycle with each other.
\<close>

theorem abba_fixture_opposite_orders:
  "oplog (path_a_handler (at_entry d c m)) =
     [(''path_a_handler'', {}, Acquire g_lock_a),
      (''path_a_handler'', {g_lock_a}, Acquire g_lock_b),
      (''path_a_handler'', {g_lock_a, g_lock_b}, Release g_lock_b),
      (''path_a_handler'', {g_lock_a}, Release g_lock_a)]
   \<and> held (path_a_handler (at_entry d c m)) = {}
   \<and> oplog (path_b_handler (at_entry d c m)) =
     [(''path_b_handler'', {}, Acquire g_lock_b),
      (''path_b_handler'', {g_lock_b}, Acquire g_lock_a),
      (''path_b_handler'', {g_lock_a, g_lock_b}, Release g_lock_a),
      (''path_b_handler'', {g_lock_b}, Release g_lock_b)]
   \<and> held (path_b_handler (at_entry d c m)) = {}
   \<and> lock_order_of ''path_a_handler'' = {(g_lock_a, g_lock_b)}
   \<and> lock_order_of ''path_b_handler'' = {(g_lock_b, g_lock_a)}
   \<and> abba_pair ''path_a_handler'' ''path_b_handler''
   \<and> {f. \<exists>g. abba_pair f g} = {''path_a_handler'', ''path_b_handler''}
   \<and> {g. \<exists>f. abba_pair f g} = {''path_a_handler'', ''path_b_handler''}"
proof -
  have a: "oplog (path_a_handler (at_entry d c m)) =
     [(''path_a_handler'', {}, Acquire g_lock_a),
      (''path_a_handler'', {g_lock_a}, Acquire g_lock_b),
      (''path_a_handler'', {g_lock_a, g_lock_b}, Release g_lock_b),
      (''path_a_handler'', {g_lock_a}, Release g_lock_a)]
   \<and> held (path_a_handler (at_entry d c m)) = {}"
    by (auto simp add: path_a_handler_def at_entry_def thread_ops Let_def)
  have b: "oplog (path_b_handler (at_entry d c m)) =
     [(''path_b_handler'', {}, Acquire g_lock_b),
      (''path_b_handler'', {g_lock_b}, Acquire g_lock_a),
      (''path_b_handler'', {g_lock_a, g_lock_b}, Release g_lock_a),
      (''path_b_handler'', {g_lock_b}, Release g_lock_b)]
   \<and> held (path_b_handler (at_entry d c m)) = {}"
    by (auto simp add: path_b_handler_def at_entry_def thread_ops Let_def)
  have f: "{f. \<exists>g. abba_pair f g} = {''path_a_handler'', ''path_b_handler''}"
    using abba_a_b abba_b_a abba_only by blast
  have g: "{g. \<exists>f. abba_pair f g} = {''path_a_handler'', ''path_b_handler''}"
    using abba_a_b abba_b_a abba_partner by blast
  show ?thesis
    using a b f g lock_order_path_a lock_order_path_b abba_a_b by blast
qed

text \<open>
  C2. In \<open>conditional_lock\<close> the branches reach the join with different held sets:
  when \<open>condition > 0\<close> the true branch has acquired \<open>g_lock_a\<close> and not released it,
  when \<open>condition \<le> 0\<close> the false branch holds nothing and has made no mutex call.
  The unlock after the join then runs, on the false-branch path, with \<open>g_lock_a\<close>
  not held: it is the only entry of the log and its held set is empty.
\<close>

theorem conditional_lock_join_states_differ:
  "(0 < sint condition \<longrightarrow>
      held (conditional_lock_branches condition (at_entry d c m)) = {g_lock_a}
      \<and> map snd (oplog (conditional_lock_branches condition (at_entry d c m))) =
          [({}, Acquire g_lock_a)]
      \<and> oplog (conditional_lock condition (at_entry d c m)) =
          [(''conditional_lock'', {}, Acquire g_lock_a),
           (''conditional_lock'', {g_lock_a}, Release g_lock_a)])
   \<and> (sint condition \<le> 0 \<longrightarrow>
      held (conditional_lock_branches condition (at_entry d c m)) = {}
      \<and> oplog (conditional_lock_branches condition (at_entry d c m)) = []
      \<and> oplog (conditional_lock condition (at_entry d c m)) =
          [(''conditional_lock'', {}, Release g_lock_a)])"
  by (simp add: lock_fns at_entry_def thread_ops Let_def)

theorem conditional_lock_join_witness:
  "held (conditional_lock_branches 5 (at_entry 0 0 (\<lambda>_. 0))) = {g_lock_a}
   \<and> held (conditional_lock_branches (- 3) (at_entry 0 0 (\<lambda>_. 0))) = {}
   \<and> oplog (conditional_lock (- 3) (at_entry 0 0 (\<lambda>_. 0))) =
          [(''conditional_lock'', {}, Release g_lock_a)]
   \<and> oplog (conditional_lock 0 (at_entry 0 0 (\<lambda>_. 0))) =
          [(''conditional_lock'', {}, Release g_lock_a)]"
  using conditional_lock_join_states_differ [of 5 0 0 "\<lambda>_. 0"]
        conditional_lock_join_states_differ [of "- 3" 0 0 "\<lambda>_. 0"]
        conditional_lock_join_states_differ [of 0 0 0 "\<lambda>_. 0"]
  by simp

text \<open>
  C6. \<open>risky_operation\<close> acquires \<open>g_lock_a\<close> first, whatever its argument. With a null
  \<open>result\<close> it returns \<open>-1\<close> holding \<open>g_lock_a\<close>; otherwise it returns \<open>0\<close> holding
  nothing. These are its two terminal paths, and exactly one of them ends with a
  non-empty held set.
\<close>

theorem risky_operation_leaks_on_early_return:
  "hd (oplog (snd (risky_operation result (at_entry d c m)))) =
       (''risky_operation'', {}, Acquire g_lock_a)
   \<and> (result = NULL \<longrightarrow>
        fst (risky_operation result (at_entry d c m)) = - 1
        \<and> held (snd (risky_operation result (at_entry d c m))) = {g_lock_a}
        \<and> oplog (snd (risky_operation result (at_entry d c m))) =
            [(''risky_operation'', {}, Acquire g_lock_a)])
   \<and> (result \<noteq> NULL \<longrightarrow>
        fst (risky_operation result (at_entry d c m)) = 0
        \<and> held (snd (risky_operation result (at_entry d c m))) = {}
        \<and> oplog (snd (risky_operation result (at_entry d c m))) =
            [(''risky_operation'', {}, Acquire g_lock_a),
             (''risky_operation'', {g_lock_a}, Release g_lock_a)])"
  by (simp add: risky_operation_def at_entry_def thread_ops Let_def)

theorem risky_operation_leaks_witness:
  "fst (risky_operation NULL (at_entry 7 0 (\<lambda>_. 0))) = - 1
   \<and> held (snd (risky_operation NULL (at_entry 7 0 (\<lambda>_. 0)))) = {g_lock_a}
   \<and> fst (risky_operation 4096 (at_entry 7 0 (\<lambda>_. 0))) = 0
   \<and> held (snd (risky_operation 4096 (at_entry 7 0 (\<lambda>_. 0)))) = {}"
  using risky_operation_leaks_on_early_return [of NULL 7 0 "\<lambda>_. 0"]
        risky_operation_leaks_on_early_return [of 4096 7 0 "\<lambda>_. 0"]
  by (simp add: NULL_def)

section \<open>Results for sample\_protocol.c\<close>

lemmas proto_fns = recv_def accept_def recv_data_handler_def accept_connection_callback_def
  proto_entry_def

text \<open>
  C7. \<open>recv_data_handler\<close> makes its one \<open>recv\<close> call between acquiring and releasing
  \<open>conn_lock\<close>, and \<open>accept_connection_callback\<close> its one \<open>accept\<close> call likewise: every
  blocking call of either log has \<open>conn_lock\<close> in its held set. Both functions return
  with nothing held, on the single return of the first and on both returns of the
  second (\<open>-1\<close> for a negative descriptor, the descriptor otherwise).
\<close>

theorem blocking_calls_hold_conn_lock:
  "oplog (snd (recv_data_handler env fd buffer maxlen (proto_entry st))) =
     [(''recv_data_handler'', {}, Acquire conn_lock),
      (''recv_data_handler'', {conn_lock}, Blocking ''recv''),
      (''recv_data_handler'', {conn_lock}, Release conn_lock)]
   \<and> blocking_under conn_lock
        (oplog (snd (recv_data_handler env fd buffer maxlen (proto_entry st))))
   \<and> held (snd (recv_data_handler env fd buffer maxlen (proto_entry st))) = {}
   \<and> fst (recv_data_handler env fd buffer maxlen (proto_entry st)) =
       recv_ret env fd buffer maxlen 0
   \<and> oplog (snd (accept_connection_callback env server_fd (proto_entry st))) =
     [(''accept_connection_callback'', {}, Acquire conn_lock),
      (''accept_connection_callback'', {conn_lock}, Blocking ''accept''),
      (''accept_connection_callback'', {conn_lock}, Release conn_lock)]
   \<and> blocking_under conn_lock
        (oplog (snd (accept_connection_callback env server_fd (proto_entry st))))
   \<and> held (snd (accept_connection_callback env server_fd (proto_entry st))) = {}
   \<and> fst (accept_connection_callback env server_fd (proto_entry st)) =
       (if sint (accept_ret env server_fd) < 0 then - 1 else accept_ret env server_fd)"
  by (simp add: proto_fns thread_ops Let_def blocking_under_def)

theorem blocking_calls_hold_conn_lock_witness:
  "blocking_under conn_lock
     (oplog (snd (recv_data_handler \<lparr>recv_ret = \<lambda>_ _ _ _. 12, accept_ret = \<lambda>_. - 1\<rparr>
        3 4096 256 (proto_entry 1))))
   \<and> held (snd (accept_connection_callback \<lparr>recv_ret = \<lambda>_ _ _ _. 12, accept_ret = \<lambda>_. - 1\<rparr>
        3 (proto_entry 1))) = {}
   \<and> fst (accept_connection_callback \<lparr>recv_ret = \<lambda>_ _ _ _. 12, accept_ret = \<lambda>_. - 1\<rparr>
        3 (proto_entry 1)) = - 1"
  using blocking_calls_hold_conn_lock
          [of "\<lparr>recv_ret = \<lambda>_ _ _ _. 12, accept_ret = \<lambda>_. - 1\<rparr>" 3 4096 256 1 3]
  by (simp add: blocking_under_def)

section \<open>Results for sample\_branch.c\<close>

text \<open>
  The loop exits from every state: by induction on the value of \<open>g_status\<close>, which
  each iteration lowers by one while it is positive.
\<close>

lemma handle_command_body_decreases:
  "0 < sint (g_status s) \<Longrightarrow>
     sint (g_status (handle_command_body s)) = sint (g_status s) - 1"
  by (simp add: handle_command_body_def sint_pred)

lemma handle_command_while_exits:
  "nat (sint (g_status s)) = n \<Longrightarrow>
     handle_command_while s =
       Some (if 0 < sint (g_status s) then s\<lparr>g_status := 0\<rparr> else s)"
proof (induction n arbitrary: s)
  case 0
  then have "\<not> 0 < sint (g_status s)" by simp
  then show ?case
    by (subst handle_command_while.simps) simp
next
  case (Suc n)
  then have pos: "0 < sint (g_status s)" by simp
  let ?t = "handle_command_body s"
  have dec: "sint (g_status ?t) = sint (g_status s) - 1"
    using pos by (rule handle_command_body_decreases)
  then have "nat (sint (g_status ?t)) = n"
    using Suc.prems by simp
  then have ih: "handle_command_while ?t =
      Some (if 0 < sint (g_status ?t) then ?t\<lparr>g_status := 0\<rparr> else ?t)"
    by (rule Suc.IH)
  have zero: "\<not> 0 < sint (g_status ?t) \<Longrightarrow> g_status ?t = 0"
  proof -
    assume "\<not> 0 < sint (g_status ?t)"
    then have "sint (g_status ?t) = 0" using dec pos by simp
    then show "g_status ?t = 0" by (simp add: signed_eq_0_iff)
  qed
  have "(if 0 < sint (g_status ?t) then ?t\<lparr>g_status := 0\<rparr> else ?t) = s\<lparr>g_status := 0\<rparr>"
  proof (cases "0 < sint (g_status ?t)")
    case True
    then show ?thesis by (simp add: handle_command_body_def)
  next
    case False
    with zero have "g_status ?t = 0" by simp
    then have "?t = s\<lparr>g_status := 0\<rparr>"
      by (simp add: handle_command_body_def)
    with False show ?thesis by simp
  qed
  with ih have "handle_command_while ?t = Some (s\<lparr>g_status := 0\<rparr>)" by simp
  with pos show ?case
    by (subst handle_command_while.simps) simp
qed

lemma handle_command_eq:
  "handle_command cmd s =
     Some (if cmd = 1 then (- 1, s\<lparr>g_status := 1\<rparr>)
           else if cmd = 2 \<or> cmd = 3 then (0, s\<lparr>g_status := 0\<rparr>)
           else (- 1, s\<lparr>g_status := - 1\<rparr>))"
proof -
  have two: "handle_command_while (s\<lparr>g_status := 2\<rparr>) = Some (s\<lparr>g_status := 0\<rparr>)"
    using handle_command_while_exits [of "s\<lparr>g_status := 2\<rparr>" 2] by simp
  have three: "handle_command_while (s\<lparr>g_status := 3\<rparr>) = Some (s\<lparr>g_status := 0\<rparr>)"
    using handle_command_while_exits [of "s\<lparr>g_status := 3\<rparr>" 3] by simp
  show ?thesis
    using two three
    by (simp add: handle_command_def handle_command_after_switch_def process_input_def Let_def)
qed

text \<open>
  C10. \<open>handle_command\<close> returns for every \<open>cmd\<close> and every state, so for every initial
  value of \<open>g_status\<close>; its loop exits from every state, each iteration lowering a
  positive \<open>g_status\<close> by exactly one; and when the function returns 0, \<open>g_status\<close> is
  0 in the state it returns.
\<close>

theorem handle_command_terminates:
  "(\<exists>r s'. handle_command cmd s = Some (r, s'))
   \<and> (\<forall>r s'. handle_command cmd s = Some (r, s') \<longrightarrow> r = 0 \<longrightarrow> g_status s' = 0)
   \<and> (\<exists>s'. handle_command_while s = Some s')
   \<and> (0 < sint (g_status s) \<longrightarrow>
        sint (g_status (handle_command_body s)) < sint (g_status s))"
proof -
  have "\<exists>s'. handle_command_while s = Some s'"
    using handle_command_while_exits [of s "nat (sint (g_status s))"] by simp
  moreover have "0 < sint (g_status s) \<longrightarrow>
      sint (g_status (handle_command_body s)) < sint (g_status s)"
    by (simp add: handle_command_body_decreases)
  moreover have "\<exists>r s'. handle_command cmd s = Some (r, s')"
    by (simp add: handle_command_eq)
  moreover have "\<forall>r s'. handle_command cmd s = Some (r, s') \<longrightarrow> r = 0 \<longrightarrow> g_status s' = 0"
    by (auto simp add: handle_command_eq split: if_splits)
  ultimately show ?thesis by blast
qed

theorem handle_command_terminates_witness:
  "handle_command 2 \<lparr>global_counter = 0, g_status = 77, bytes = (\<lambda>_. 0)\<rparr> =
     Some (0, \<lparr>global_counter = 0, g_status = 0, bytes = (\<lambda>_. 0)\<rparr>)
   \<and> g_status (snd (the (handle_command 2
        \<lparr>global_counter = 0, g_status = 77, bytes = (\<lambda>_. 0)\<rparr>))) = 0
   \<and> sint (g_status (handle_command_body
        \<lparr>global_counter = 0, g_status = 77, bytes = (\<lambda>_. 0)\<rparr>)) < 77"
  using handle_command_terminates
          [of 2 "\<lparr>global_counter = 0, g_status = 77, bytes = (\<lambda>_. 0)\<rparr>"]
  by (simp add: handle_command_eq)

section \<open>Results for sample\_funcptr.c\<close>

lemmas fp_fns = emit_def my_callback_def process_data_def cleanup_handler_def
  call_callback_t_def call_handler_func_def

text \<open>The loop of \<open>test_array_funcptr\<close>, unrolled from its exit backwards.\<close>

lemma test_array_funcptr_for_2: "test_array_funcptr_for 2 s = Some s"
  by (subst test_array_funcptr_for.simps) simp

lemma test_array_funcptr_for_1:
  "callback_table s 1 = Fn_my_callback \<Longrightarrow>
   test_array_funcptr_for 1 s =
     Some (s\<lparr>calls := calls s @
       [Call_through Fn_my_callback, Enter_my_callback 1,
        Printf (''Callback called with %d'' @ [CHR 0x0A]) 1]\<rparr>)"
  by (subst test_array_funcptr_for.simps)
     (simp add: callback_table_at_def fp_fns test_array_funcptr_for_2)

lemma test_array_funcptr_for_0:
  "callback_table s 0 = Fn_my_callback \<Longrightarrow> callback_table s 1 = Fn_my_callback \<Longrightarrow>
   test_array_funcptr_for 0 s =
     Some (s\<lparr>calls := calls s @
       [Call_through Fn_my_callback, Enter_my_callback 0,
        Printf (''Callback called with %d'' @ [CHR 0x0A]) 0,
        Call_through Fn_my_callback, Enter_my_callback 1,
        Printf (''Callback called with %d'' @ [CHR 0x0A]) 1]\<rparr>)"
  by (subst test_array_funcptr_for.simps)
     (simp add: callback_table_at_def fp_fns test_array_funcptr_for_1)

text \<open>
  C8. Every call through a pointer in the file reaches one function, whatever the
  shape of the binding. \<open>cb(42)\<close> in \<open>test_direct_assignment\<close> and \<open>cb(100)\<close> in
  \<open>test_addressof_assignment\<close> enter \<open>my_callback\<close>; in \<open>test_struct_member\<close>,
  \<open>ops.process(NULL, 0)\<close> enters \<open>process_data\<close> and \<open>ops.cleanup(NULL, 0)\<close> enters
  \<open>cleanup_handler\<close>; in \<open>test_array_funcptr\<close>, \<open>callback_table[i](i)\<close> enters
  \<open>my_callback\<close> for \<open>i = 0\<close> and for \<open>i = 1\<close>. Each function returns (no call is
  undefined), from every state and for every first content of \<open>ops\<close>.
\<close>

theorem indirect_calls_reach_one_target:
  "test_direct_assignment s =
     Some (s\<lparr>calls := calls s @
       [Call_through Fn_my_callback, Enter_my_callback 42,
        Printf (''Callback called with %d'' @ [CHR 0x0A]) 42]\<rparr>)
   \<and> test_addressof_assignment s =
     Some (s\<lparr>calls := calls s @
       [Call_through Fn_my_callback, Enter_my_callback 100,
        Printf (''Callback called with %d'' @ [CHR 0x0A]) 100]\<rparr>)
   \<and> test_struct_member ops s =
     Some (s\<lparr>calls := calls s @
       [Call_through Fn_process_data, Enter_process_data NULL 0,
        Call_through Fn_cleanup_handler, Enter_cleanup_handler NULL 0]\<rparr>)
   \<and> test_array_funcptr s =
     Some (s\<lparr>callback_table := (callback_table s)(0 := Fn_my_callback, 1 := Fn_my_callback),
             calls := calls s @
       [Call_through Fn_my_callback, Enter_my_callback 0,
        Printf (''Callback called with %d'' @ [CHR 0x0A]) 0,
        Call_through Fn_my_callback, Enter_my_callback 1,
        Printf (''Callback called with %d'' @ [CHR 0x0A]) 1]\<rparr>)"
proof -
  have direct: "test_direct_assignment s =
     Some (s\<lparr>calls := calls s @
       [Call_through Fn_my_callback, Enter_my_callback 42,
        Printf (''Callback called with %d'' @ [CHR 0x0A]) 42]\<rparr>)"
    by (simp add: test_direct_assignment_def fp_fns)
  have addressof: "test_addressof_assignment s =
     Some (s\<lparr>calls := calls s @
       [Call_through Fn_my_callback, Enter_my_callback 100,
        Printf (''Callback called with %d'' @ [CHR 0x0A]) 100]\<rparr>)"
    by (simp add: test_addressof_assignment_def fp_fns)
  have member: "test_struct_member ops s =
     Some (s\<lparr>calls := calls s @
       [Call_through Fn_process_data, Enter_process_data NULL 0,
        Call_through Fn_cleanup_handler, Enter_cleanup_handler NULL 0]\<rparr>)"
    by (simp add: test_struct_member_def fp_fns)
  have array: "test_array_funcptr s =
     Some (s\<lparr>callback_table := (callback_table s)(0 := Fn_my_callback, 1 := Fn_my_callback),
             calls := calls s @
       [Call_through Fn_my_callback, Enter_my_callback 0,
        Printf (''Callback called with %d'' @ [CHR 0x0A]) 0,
        Call_through Fn_my_callback, Enter_my_callback 1,
        Printf (''Callback called with %d'' @ [CHR 0x0A]) 1]\<rparr>)"
    by (simp add: test_array_funcptr_def test_array_funcptr_for_0)
  from direct addressof member array show ?thesis by blast
qed

section \<open>Results for sample\_overflow.c: allocation sizes\<close>

text \<open>
  When \<open>size\<close> is not 0 the guard does what it is there for: the function either
  returns \<open>NULL\<close> without calling \<open>malloc\<close>, or calls \<open>malloc\<close> once with a size that is
  the product of \<open>count\<close> and \<open>size\<close> as natural numbers.
\<close>

lemma guarded_product_exact:
  fixes count size' :: size_t
  assumes nz: "size' \<noteq> 0" and le: "\<not> SIZE_MAX div size' < count"
  shows "unat (count * size') = unat count * unat size'"
proof -
  have pos: "0 < unat size'"
    using nz by (simp add: unat_gt_0)
  have "unat count \<le> unat (SIZE_MAX div size')"
    using le by (simp add: word_le_nat_alt not_less)
  also have "\<dots> = unat SIZE_MAX div unat size'"
    by (simp add: unat_div)
  finally have "unat count * unat size' \<le> unat SIZE_MAX div unat size' * unat size'"
    by (rule mult_le_mono1)
  also have "\<dots> \<le> unat SIZE_MAX"
    by (rule div_times_less_eq_dividend)
  also have "\<dots> < 2 ^ 64"
    using unsigned_less [of SIZE_MAX, where 'a = nat] by simp
  finally have "unat count * unat size' < 2 ^ LENGTH(64)"
    by simp
  then show ?thesis
    by (simp only: unat_mult_lem [THEN iffD1])
qed

theorem allocate_buffer_safe_nonzero_size:
  fixes count size' :: size_t
  assumes "size' \<noteq> 0"
  shows "allocate_buffer_safe malloc count size' = Inr (NULL, [])
       \<or> (allocate_buffer_safe malloc count size' =
            Inr (malloc (count * size'), [count * size'])
          \<and> unat (count * size') = unat count * unat size')"
  using assms guarded_product_exact [of size' count]
  by (simp add: allocate_buffer_safe_def c_div_def Let_def)

theorem allocate_buffer_safe_nonzero_size_witness:
  "allocate_buffer_safe (\<lambda>n. 4096) 3 8 = Inr (4096, [24])
   \<and> unat (3 * 8 :: size_t) = unat (3 :: size_t) * unat (8 :: size_t)
   \<and> allocate_buffer_safe (\<lambda>n. 4096) 0x8000000000000000 2 = Inr (NULL, [])"
  using allocate_buffer_safe_nonzero_size
          [where count = 3 and size' = 8 and malloc = "\<lambda>n. 4096"]
        allocate_buffer_safe_nonzero_size
          [where count = "0x8000000000000000" and size' = 2 and malloc = "\<lambda>n. 4096"]
  by (simp add: allocate_buffer_safe_def c_div_def SIZE_MAX_def NULL_def)

text \<open>
  Without the guard the product wraps: \<open>allocate_buffer\<close> asked for \<open>2^63\<close> elements of
  2 bytes requests 0 bytes.
\<close>

lemma product_wraps: "(0x8000000000000000 * 2 :: size_t) = 0"
  by (simp add: word_unat_eq_iff)

theorem allocate_buffer_wraps:
  fixes malloc :: "size_t \<Rightarrow> ptr"
  shows "allocate_buffer malloc 0x8000000000000000 2 = Inr (malloc 0, [0])"
  unfolding allocate_buffer_def Let_def product_wraps by simp

text \<open>
  C5. The claim is that the guard \<open>count > SIZE_MAX / size\<close> is well defined for every
  pair of arguments, \<open>size == 0\<close> included. With \<open>size = 0\<close> the function evaluates
  \<open>SIZE_MAX / 0\<close> before anything else: it faults, for every \<open>count\<close>, and neither
  returns \<open>NULL\<close> nor reaches \<open>malloc\<close>.
\<close>

theorem allocate_buffer_safe_divides_by_zero:
  fixes count :: size_t
  shows "allocate_buffer_safe malloc count 0 = Inl Division_by_zero"
  by (simp add: allocate_buffer_safe_def c_div_def)

section \<open>Results for sample\_overflow.c: string copies\<close>




lemma beyond_store_keeps: "beyond b \<noteq> [] \<Longrightarrow> beyond (store i v b) \<noteq> []"
  by (simp add: store_def)

text \<open>\<open>strcpy\<close> stays inside the array exactly when the string and its terminator fit.\<close>

lemma strcpy_at_keeps: "beyond b \<noteq> [] \<Longrightarrow> beyond (strcpy_at i src b) \<noteq> []"
  by (induction src arbitrary: i b) (simp_all add: beyond_store_keeps)










section \<open>Results for sample\_overflow.c: checks and opens\<close>

lemmas fs_calls = syscall_def access_def c_open_def fstat_def close_def

text \<open>
  C4. A run of \<open>open_if_readable\<close> is one of two: \<open>access(path, R_OK)\<close> fails and nothing
  is opened, or it returns 0 and then \<open>open(path, O_RDONLY)\<close> names the same path
  again. So whenever \<open>open\<close> runs, the check on that path has succeeded just before.
  A run of \<open>open_and_verify\<close> starts with \<open>open\<close> on the path, and every later call
  (\<open>fstat\<close>, \<open>close\<close>) names the descriptor that \<open>open\<close> returned; the function returns
  that descriptor only when the mode \<open>fstat\<close> got from it is a regular file's.
\<close>

theorem check_then_open_and_open_then_check:
  "((\<exists>a. a \<noteq> 0 \<and> open_if_readable env path [] = (- 1, [(Access path R_OK, a)]))
    \<or> (\<exists>fd. open_if_readable env path [] =
          (fd, [(Access path R_OK, 0), (Open path O_RDONLY, fd)])))
   \<and> (\<exists>fd rest.
        snd (open_and_verify env path []) =
          (Open path (O_RDONLY OR O_NOFOLLOW), fd) # rest
        \<and> by_descriptor fd rest
        \<and> (fst (open_and_verify env path []) = fd
            \<and> rest = [(Fstat fd,
                 fst (env [(Open path (O_RDONLY OR O_NOFOLLOW), fd)] (Fstat fd)))]
            \<and> S_ISREG (snd (env [(Open path (O_RDONLY OR O_NOFOLLOW), fd)] (Fstat fd)))
          \<or> fst (open_and_verify env path []) = - 1))"
proof -
  let ?a = "fst (env [] (Access path R_OK))"
  have first: "(\<exists>a. a \<noteq> 0 \<and> open_if_readable env path [] = (- 1, [(Access path R_OK, a)]))
    \<or> (\<exists>fd. open_if_readable env path [] =
          (fd, [(Access path R_OK, 0), (Open path O_RDONLY, fd)]))"
  proof (cases "?a = 0")
    case True
    then show ?thesis
      by (simp add: open_if_readable_def fs_calls split_beta)
  next
    case False
    then show ?thesis
      by (simp add: open_if_readable_def fs_calls split_beta)
  qed
  let ?o = "Open path (O_RDONLY OR O_NOFOLLOW)"
  let ?fd = "fst (env [] ?o)"
  let ?r = "fst (env [(?o, ?fd)] (Fstat ?fd))"
  let ?m = "snd (env [(?o, ?fd)] (Fstat ?fd))"
  let ?c = "fst (env [(?o, ?fd), (Fstat ?fd, ?r)] (Close ?fd))"
  have run: "open_and_verify env path [] =
      (if sint ?fd < 0 then (- 1, [(?o, ?fd)])
       else if sint ?r < 0 \<or> \<not> S_ISREG ?m
         then (- 1, [(?o, ?fd), (Fstat ?fd, ?r), (Close ?fd, ?c)])
       else (?fd, [(?o, ?fd), (Fstat ?fd, ?r)]))"
    by (simp add: open_and_verify_def fs_calls split_beta)
  have second: "\<exists>fd rest.
        snd (open_and_verify env path []) = (?o, fd) # rest
        \<and> by_descriptor fd rest
        \<and> (fst (open_and_verify env path []) = fd
            \<and> rest = [(Fstat fd, fst (env [(?o, fd)] (Fstat fd)))]
            \<and> S_ISREG (snd (env [(?o, fd)] (Fstat fd)))
          \<or> fst (open_and_verify env path []) = - 1)"
    by (rule exI [of _ ?fd]) (simp add: run by_descriptor_def)
  from first second show ?thesis by blast
qed

theorem check_then_open_witness:
  "open_if_readable (\<lambda>h c. (case c of Fstat fd \<Rightarrow> 0 | Close fd \<Rightarrow> 0 | _ \<Rightarrow> 3, 0x81A4))
       ''/etc/motd'' [] =
     (- 1, [(Access ''/etc/motd'' R_OK, 3)])
   \<and> by_descriptor 3
       (tl (snd (open_and_verify
          (\<lambda>h c. (case c of Fstat fd \<Rightarrow> 0 | Close fd \<Rightarrow> 0 | _ \<Rightarrow> 3, 0x81A4))
          ''/etc/motd'' [])))
   \<and> fst (open_and_verify
          (\<lambda>h c. (case c of Fstat fd \<Rightarrow> 0 | Close fd \<Rightarrow> 0 | _ \<Rightarrow> 3, 0x81A4))
          ''/etc/motd'' []) = 3"
  using check_then_open_and_open_then_check
          [of "\<lambda>h c. (case c of Fstat fd \<Rightarrow> 0 | Close fd \<Rightarrow> 0 | _ \<Rightarrow> 3, 0x81A4)" "''/etc/motd''"]
  by (simp add: open_if_readable_def open_and_verify_def fs_calls by_descriptor_def
        S_ISREG_def R_OK_def O_RDONLY_def O_NOFOLLOW_def)

section \<open>Results for storage\_module.c\<close>

lemmas pool_insert_unfold =
  pool_insert_def frame_result_def storage_entry_def thread_ops Let_def
  EINVAL_def ENOSPC_def EEXIST_def

text \<open>
  C9. Whenever \<open>pool_insert\<close> returns a nonzero value, the value is \<open>-EINVAL\<close>,
  \<open>-ENOSPC\<close> or \<open>-EEXIST\<close> and every pool is as it was: \<open>entries\<close> and \<open>count\<close> are
  unchanged (and so is every entry). \<open>pool->pool_lock\<close> is released at every return
  but the \<open>-ENOSPC\<close> one: nothing is held at the \<open>-EINVAL\<close> return (it comes before
  the lock is taken), at the \<open>-EEXIST\<close> return and at the return of 0 (both come after
  the lock was taken and released). The \<open>-ENOSPC\<close> return is the return taken when
  \<open>pool->count >= POOL_SIZE\<close>, and only then: both arguments are non-null, the pool's
  \<open>count\<close> is at least \<open>POOL_SIZE\<close>, the lock was taken and not released, and
  \<open>pool->pool_lock\<close> is still held. Conversely every call with non-null arguments on a
  pool whose \<open>count\<close> is at least \<open>POOL_SIZE\<close> returns \<open>-ENOSPC\<close> with the lock held and
  nothing else changed.
\<close>

theorem pool_insert_failure_leaves_pool:
  "(\<forall>r s'. pool_insert pool entry (storage_entry ps bs) = Inr (r, s') \<longrightarrow>
       (r \<noteq> 0 \<longrightarrow>
            (r = - EINVAL \<or> r = - ENOSPC \<or> r = - EEXIST)
            \<and> pools s' = ps \<and> blocks s' = bs)
       \<and> (r = - EINVAL \<longrightarrow> held s' = {} \<and> oplog s' = [])
       \<and> (r = - ENOSPC \<longrightarrow>
            held s' = {Pool_lock pool}
            \<and> oplog s' = [(''pool_insert'', {}, Acquire (Pool_lock pool))])
       \<and> (r = - EEXIST \<or> r = 0 \<longrightarrow>
            held s' = {}
            \<and> oplog s' = [(''pool_insert'', {}, Acquire (Pool_lock pool)),
                          (''pool_insert'', {Pool_lock pool}, Release (Pool_lock pool))])
       \<and> (held s' \<noteq> {} \<longleftrightarrow> r = - ENOSPC)
       \<and> (r = - ENOSPC \<longleftrightarrow>
            pool \<noteq> NULL \<and> entry \<noteq> NULL
            \<and> (\<exists>p. ps pool = Some p \<and> POOL_SIZE \<le> sint (count p))))
   \<and> (\<forall>p. pool \<noteq> NULL \<longrightarrow> entry \<noteq> NULL \<longrightarrow> ps pool = Some p \<longrightarrow>
          POOL_SIZE \<le> sint (count p) \<longrightarrow>
          pool_insert pool entry (storage_entry ps bs) =
            Inr (- ENOSPC,
              \<lparr>held = {Pool_lock pool},
               oplog = [(''pool_insert'', {}, Acquire (Pool_lock pool))],
               cur = ''caller'', pools = ps, blocks = bs\<rparr>))"
proof -
  have returned: "\<forall>r s'. pool_insert pool entry (storage_entry ps bs) = Inr (r, s') \<longrightarrow>
       (r \<noteq> 0 \<longrightarrow>
            (r = - EINVAL \<or> r = - ENOSPC \<or> r = - EEXIST)
            \<and> pools s' = ps \<and> blocks s' = bs)
       \<and> (r = - EINVAL \<longrightarrow> held s' = {} \<and> oplog s' = [])
       \<and> (r = - ENOSPC \<longrightarrow>
            held s' = {Pool_lock pool}
            \<and> oplog s' = [(''pool_insert'', {}, Acquire (Pool_lock pool))])
       \<and> (r = - EEXIST \<or> r = 0 \<longrightarrow>
            held s' = {}
            \<and> oplog s' = [(''pool_insert'', {}, Acquire (Pool_lock pool)),
                          (''pool_insert'', {Pool_lock pool}, Release (Pool_lock pool))])
       \<and> (held s' \<noteq> {} \<longleftrightarrow> r = - ENOSPC)
       \<and> (r = - ENOSPC \<longleftrightarrow>
            pool \<noteq> NULL \<and> entry \<noteq> NULL
            \<and> (\<exists>p. ps pool = Some p \<and> POOL_SIZE \<le> sint (count p)))"
    by (auto simp add: pool_insert_unfold
        split: if_splits option.splits sum.splits bool.splits)
  have full: "\<forall>p. pool \<noteq> NULL \<longrightarrow> entry \<noteq> NULL \<longrightarrow> ps pool = Some p \<longrightarrow>
          POOL_SIZE \<le> sint (count p) \<longrightarrow>
          pool_insert pool entry (storage_entry ps bs) =
            Inr (- ENOSPC,
              \<lparr>held = {Pool_lock pool},
               oplog = [(''pool_insert'', {}, Acquire (Pool_lock pool))],
               cur = ''caller'', pools = ps, blocks = bs\<rparr>)"
    by (simp add: pool_insert_unfold)
  from returned full show ?thesis by blast
qed

theorem pool_insert_failure_witness:
  "pool_insert 0x1000 0x2000
       (storage_entry [0x1000 \<mapsto> \<lparr>entries = (\<lambda>_. 0x3000), count = 64\<rparr>] Map.empty) =
     Inr (- ENOSPC,
       \<lparr>held = {Pool_lock 0x1000},
        oplog = [(''pool_insert'', {}, Acquire (Pool_lock 0x1000))],
        cur = ''caller'',
        pools = [0x1000 \<mapsto> \<lparr>entries = (\<lambda>_. 0x3000), count = 64\<rparr>],
        blocks = Map.empty\<rparr>)
   \<and> (\<exists>s'. pool_insert 0x1000 0x2000
          (storage_entry [0x1000 \<mapsto> \<lparr>entries = (\<lambda>_. 0x3000), count = 1\<rparr>]
             [0x2000 \<mapsto> \<lparr>key = [CHR ''k'', NUL], data = 0x5000, size' = 8, ref_count = 1\<rparr>,
              0x3000 \<mapsto> \<lparr>key = [CHR ''k'', NUL], data = 0x6000, size' = 8, ref_count = 1\<rparr>]) =
        Inr (- EEXIST, s')
      \<and> held s' = {}
      \<and> pools s' = [0x1000 \<mapsto> \<lparr>entries = (\<lambda>_. 0x3000), count = 1\<rparr>])
   \<and> (\<exists>s'. pool_insert NULL 0x2000 (storage_entry Map.empty Map.empty) = Inr (- EINVAL, s')
      \<and> held s' = {} \<and> oplog s' = [])
   \<and> (\<exists>s'. pool_insert 0x1000 0x2000
          (storage_entry [0x1000 \<mapsto> \<lparr>entries = (\<lambda>_. 0x3000), count = 0\<rparr>]
             [0x2000 \<mapsto> \<lparr>key = [CHR ''k'', NUL], data = 0x5000, size' = 8, ref_count = 1\<rparr>]) =
        Inr (0, s')
      \<and> held s' = {})"
proof -
  let ?full = "[0x1000 \<mapsto> \<lparr>entries = (\<lambda>_. 0x3000), count = 64\<rparr>]"
  let ?one = "[0x1000 \<mapsto> \<lparr>entries = (\<lambda>_. 0x3000), count = 1\<rparr>]"
  let ?none = "[0x1000 \<mapsto> \<lparr>entries = (\<lambda>_. 0x3000), count = 0\<rparr>]"
  let ?bs = "[0x2000 \<mapsto> \<lparr>key = [CHR ''k'', NUL], data = 0x5000, size' = 8, ref_count = 1\<rparr>,
              0x3000 \<mapsto> \<lparr>key = [CHR ''k'', NUL], data = 0x6000, size' = 8, ref_count = 1\<rparr>]"
  let ?b1 = "[0x2000 \<mapsto> \<lparr>key = [CHR ''k'', NUL], data = 0x5000, size' = 8, ref_count = 1\<rparr>]"
  have full: "pool_insert 0x1000 0x2000 (storage_entry ?full Map.empty) =
     Inr (- ENOSPC,
       \<lparr>held = {Pool_lock 0x1000},
        oplog = [(''pool_insert'', {}, Acquire (Pool_lock 0x1000))],
        cur = ''caller'', pools = ?full, blocks = Map.empty\<rparr>)"
    using pool_insert_failure_leaves_pool
            [where pool = "0x1000" and entry = "0x2000" and ps = ?full and bs = Map.empty,
             THEN conjunct2, rule_format,
             where p = "\<lparr>entries = (\<lambda>_. 0x3000), count = 64\<rparr>"]
    by (simp add: NULL_def POOL_SIZE_def)
  have dup: "\<exists>s'. pool_insert 0x1000 0x2000 (storage_entry ?one ?bs) = Inr (- EEXIST, s')"
    by (simp add: pool_insert_unfold NULL_def POOL_SIZE_def pool_insert_for.simps NUL_def)
  then obtain s1 where
    s1: "pool_insert 0x1000 0x2000 (storage_entry ?one ?bs) = Inr (- EEXIST, s1)" ..
  have inval: "\<exists>s'. pool_insert NULL 0x2000 (storage_entry Map.empty Map.empty) =
      Inr (- EINVAL, s')"
    by (simp add: pool_insert_def frame_result_def)
  then obtain s2 where
    s2: "pool_insert NULL 0x2000 (storage_entry Map.empty Map.empty) = Inr (- EINVAL, s2)" ..
  have ok: "\<exists>s'. pool_insert 0x1000 0x2000 (storage_entry ?none ?b1) = Inr (0, s')"
    by (simp add: pool_insert_unfold NULL_def POOL_SIZE_def pool_insert_for.simps)
  then obtain s3 where
    s3: "pool_insert 0x1000 0x2000 (storage_entry ?none ?b1) = Inr (0, s3)" ..
  have "held s1 = {} \<and> pools s1 = ?one"
    using pool_insert_failure_leaves_pool [THEN conjunct1, rule_format, OF s1]
    by (simp add: EEXIST_def EINVAL_def ENOSPC_def)
  moreover have "held s2 = {} \<and> oplog s2 = []"
    using pool_insert_failure_leaves_pool [THEN conjunct1, rule_format, OF s2]
    by (simp add: EEXIST_def EINVAL_def ENOSPC_def)
  moreover have "held s3 = {}"
    using pool_insert_failure_leaves_pool [THEN conjunct1, rule_format, OF s3]
    by (simp add: EEXIST_def EINVAL_def ENOSPC_def)
  ultimately show ?thesis
    using full s1 s2 s3 by blast
qed

end
